theory Spec2Isabelle
  imports Main "HOL-Library.Word"
begin

unbundle bit_operations_syntax

section \<open>The RGB matrix editor (ui/src/rgbmatrixeditor.cpp)\<close>

text \<open>
  A shallow embedding of the parts of \<^verbatim>\<open>RGBMatrixEditor\<close> that compute something: the colour
  update, the creation of the preview items, the preview timer callback, the restart of the
  test, the slots that change a Text or Image algorithm and the export of the matrix into a
  scene and a sequence. The editor is a client of
  collaborator classes that live in other files (\<^verbatim>\<open>RGBMatrix\<close>, \<^verbatim>\<open>RGBMatrixStep\<close>, \<^verbatim>\<open>Doc\<close>,
  \<^verbatim>\<open>Fixture\<close>, \<^verbatim>\<open>FixtureGroup\<close>, \<^verbatim>\<open>RGBItem\<close>, \<^verbatim>\<open>MasterTimer\<close>). Their data is modelled by records
  holding what the editor reads and writes; their methods whose bodies the editor does not
  contain are parameters, collected in the record \<open>env\<close>, and stay uninterpreted.
\<close>

subsection \<open>Machine integers and colours\<close>

type_synonym uint = "32 word"
type_synonym quint32 = "32 word"
type_synonym uchar = "8 word"
type_synonym QRgb = "32 word"

text \<open>
  \<^verbatim>\<open>QColor\<close> as the editor uses it: the default-constructed invalid colour, or an opaque RGB
  colour with 8-bit components.
\<close>

datatype QColor = QColor_Invalid | QColor_Rgb uchar uchar uchar

definition isValid :: "QColor \<Rightarrow> bool" where
  "isValid c = (case c of QColor_Invalid \<Rightarrow> False | QColor_Rgb r g b \<Rightarrow> True)"

definition red :: "QColor \<Rightarrow> int" where
  "red c = (case c of QColor_Invalid \<Rightarrow> 0 | QColor_Rgb r g b \<Rightarrow> uint r)"

definition green :: "QColor \<Rightarrow> int" where
  "green c = (case c of QColor_Invalid \<Rightarrow> 0 | QColor_Rgb r g b \<Rightarrow> uint g)"

definition blue :: "QColor \<Rightarrow> int" where
  "blue c = (case c of QColor_Invalid \<Rightarrow> 0 | QColor_Rgb r g b \<Rightarrow> uint b)"

text \<open>\<^verbatim>\<open>QColor(int r, int g, int b)\<close>: invalid when a component is outside 0..255.\<close>

definition QColor3 :: "int \<Rightarrow> int \<Rightarrow> int \<Rightarrow> QColor" where
  "QColor3 r g b =
     (if 0 \<le> r \<and> r \<le> 255 \<and> 0 \<le> g \<and> g \<le> 255 \<and> 0 \<le> b \<and> b \<le> 255
      then QColor_Rgb (word_of_int r) (word_of_int g) (word_of_int b)
      else QColor_Invalid)"

text \<open>\<^verbatim>\<open>QColor::rgb()\<close>: the components packed as \<^verbatim>\<open>0xffRRGGBB\<close>.\<close>

definition rgb :: "QColor \<Rightarrow> QRgb" where
  "rgb c =
     (case c of
        QColor_Invalid \<Rightarrow> 0xff000000
      | QColor_Rgb r g b \<Rightarrow>
          0xff000000 OR push_bit 16 (ucast r) OR push_bit 8 (ucast g) OR ucast b)"

definition qRed :: "QRgb \<Rightarrow> int" where
  "qRed c = uint (drop_bit 16 c AND 0xff)"

definition qGreen :: "QRgb \<Rightarrow> int" where
  "qGreen c = uint (drop_bit 8 c AND 0xff)"

definition qBlue :: "QRgb \<Rightarrow> int" where
  "qBlue c = uint (c AND 0xff)"

text \<open>\<^verbatim>\<open>QColor(QRgb)\<close>: the alpha byte is dropped.\<close>

definition QColor1 :: "QRgb \<Rightarrow> QColor" where
  "QColor1 c = QColor3 (qRed c) (qGreen c) (qBlue c)"

text \<open>\<^verbatim>\<open>qGray(QRgb)\<close> is \<^verbatim>\<open>(r*11 + g*16 + b*5) / 32\<close> on the three components.\<close>

definition qGray :: "QRgb \<Rightarrow> int" where
  "qGray c = (qRed c * 11 + qGreen c * 16 + qBlue c * 5) div 32"

definition Qt_white :: QColor where
  "Qt_white = QColor_Rgb 255 255 255"

definition Qt_black :: QColor where
  "Qt_black = QColor_Rgb 0 0 0"

subsection \<open>The matrix and the other collaborators' data\<close>

datatype RunOrder = Loop | PingPong | SingleShot

datatype Direction = Forward | Backward

text \<open>
  \<^verbatim>\<open>Universe::BlendMode\<close> and \<^verbatim>\<open>RGBAlgorithm::Type\<close> are declared in headers outside this
  file; the editor tells \<^verbatim>\<open>MaskBlend\<close> from every other blend mode and names five algorithm
  types.
\<close>

datatype BlendMode = NormalBlend | MaskBlend | AdditiveBlend | SubtractiveBlend

datatype AlgorithmType = Script | Plain | Text | Image | Audio

record RGBAlgorithm =
  algo_type :: AlgorithmType
  acceptColors :: int

text \<open>\<^verbatim>\<open>Function::start\<close> and \<^verbatim>\<open>Function::stopAndWait\<close>, recorded in call order.\<close>

datatype FunctionCall = Start | StopAndWait

record RGBMatrix =
  mtx_name :: string
  runOrder :: RunOrder
  direction :: Direction
  blendMode :: BlendMode
  controlMode :: int
  startColor :: QColor
  endColor :: QColor
  fixtureGroup :: quint32
  algorithm :: "RGBAlgorithm option"
  duration :: uint
  fadeInSpeed :: uint
  fadeOutSpeed :: uint
  calls :: "FunctionCall list"

type_synonym QLCPoint = "int \<times> int"

record GroupHead =
  head_fxi :: quint32
  head_head :: int

text \<open>
  A fixture answers two questions of the editor: the RGB channels of a head and the
  channel number of its master intensity.
\<close>

record Fixture =
  rgbChannels :: "int \<Rightarrow> quint32 list"
  masterIntensityChannel :: "int \<Rightarrow> quint32"

record FixtureGroup =
  grp_name :: string
  grp_width :: int
  grp_height :: int
  headsMap_contains :: "QLCPoint \<Rightarrow> bool"
  grp_head :: "QLCPoint \<Rightarrow> GroupHead"
  headList :: "GroupHead list"

record SceneValue =
  sv_fxi :: quint32
  sv_channel :: quint32
  sv_value :: uchar

record Scene =
  scene_id :: quint32
  scene_name :: string
  scene_visible :: bool
  scene_values :: "SceneValue list"

record ChaserStep =
  fid :: quint32
  hold :: uint
  step_duration :: uint
  fadeIn :: uint
  fadeOut :: uint
  step_values :: "SceneValue list"

datatype SpeedMode = Default | Common | PerStep

record Sequence =
  seq_id :: quint32
  seq_name :: string
  boundSceneID :: quint32
  durationMode :: SpeedMode
  seq_duration :: uint
  fadeInMode :: SpeedMode
  seq_fadeInSpeed :: uint
  fadeOutMode :: SpeedMode
  seq_fadeOutSpeed :: uint
  steps :: "ChaserStep list"

datatype DocFunction = SceneFunction Scene | SequenceFunction Sequence

record Doc =
  doc_fixtureGroup :: "quint32 \<Rightarrow> FixtureGroup option"
  doc_fixture :: "quint32 \<Rightarrow> Fixture option"
  doc_functions :: "DocFunction list"

subsection \<open>The editor's own state\<close>

datatype SceneItem = TextItem string | HeadItem QLCPoint

datatype Fill = FillColor QColor | FillTransparent

datatype TimerOp = TimerStop | TimerStart uint

text \<open>
  The matrix the editor points to is passed beside this record: every method but
  \<^verbatim>\<open>slotSaveToSequenceClicked\<close> dereferences \<^verbatim>\<open>m_matrix\<close> without a test.
  \<open>timerOps\<close> records the calls made on \<^verbatim>\<open>m_previewTimer\<close> in order; \<open>timerActive\<close> and
  \<open>timerInterval\<close> are the timer's resulting state.
\<close>

record ('h, 'i) editor =
  m_doc :: Doc
  m_previewHandler :: 'h
  m_scene :: "SceneItem list"
  m_previewHash :: "QLCPoint \<Rightarrow> 'i option"
  m_previewIterator :: uint
  timerActive :: bool
  timerInterval :: uint
  timerOps :: "TimerOp list"
  testChecked :: bool
  shapeChecked :: bool
  colorModeIndex :: int
  startColorIcon :: Fill
  endColorIcon :: Fill

subsection \<open>Collaborator methods taken as parameters\<close>

record ('h, 'i, 'k) env =
  tick :: uint
  ControlModeRgb :: int
  invalidId :: quint32
  channelInvalid :: quint32
  stepsCount :: "RGBMatrix \<Rightarrow> int"
  previewMap :: "RGBMatrix \<Rightarrow> int \<Rightarrow> 'h \<Rightarrow> 'h"
  calculateColorDelta :: "QColor \<Rightarrow> QColor \<Rightarrow> 'h \<Rightarrow> 'h"
  initializeDirection :: "Direction \<Rightarrow> QColor \<Rightarrow> QColor \<Rightarrow> int \<Rightarrow> 'h \<Rightarrow> 'h"
  checkNextStep :: "RunOrder \<Rightarrow> QColor \<Rightarrow> QColor \<Rightarrow> int \<Rightarrow> 'h \<Rightarrow> 'h"
  setStepColor :: "QColor \<Rightarrow> 'h \<Rightarrow> 'h"
  updateStepColor :: "int \<Rightarrow> QColor \<Rightarrow> int \<Rightarrow> 'h \<Rightarrow> 'h"
  currentStepIndex :: "'h \<Rightarrow> int"
  m_map :: "'h \<Rightarrow> uint list list"
  newItem :: "bool \<Rightarrow> int \<Rightarrow> int \<Rightarrow> int \<Rightarrow> int \<Rightarrow> 'i"
  item_color :: "'i \<Rightarrow> uint"
  item_setColor :: "uint \<Rightarrow> 'i \<Rightarrow> 'i"
  item_draw :: "uint \<Rightarrow> uint \<Rightarrow> 'i \<Rightarrow> 'i"
  newScene :: Scene
  newSequence :: Sequence
  createFunctionId :: "DocFunction list \<Rightarrow> quint32"
  sequenceName :: "string \<Rightarrow> string"
  sceneValueKey :: "SceneValue \<Rightarrow> 'k"

text \<open>
  \<open>tick\<close> is \<^verbatim>\<open>MasterTimer::tick()\<close>; \<open>invalidId\<close> is \<^verbatim>\<open>FixtureGroup::invalidId()\<close> and
  \<open>channelInvalid\<close> is \<^verbatim>\<open>QLCChannel::invalid()\<close>. \<open>stepsCount\<close> and \<open>previewMap\<close> are methods of
  the matrix; the next six are methods of the preview handler (\<^verbatim>\<open>RGBMatrixStep\<close>) and
  \<open>m_map\<close> is its public colour grid, a vector of rows. \<open>newItem shape x y w h\<close> is the
  \<^verbatim>\<open>RGBItem\<close> built around a new ellipse (\<open>shape = False\<close>) or rectangle with that geometry.
  \<open>newScene\<close> and \<open>newSequence\<close> are the objects the constructors \<^verbatim>\<open>Scene(doc)\<close> and
  \<^verbatim>\<open>Sequence(doc)\<close> return; \<open>createFunctionId\<close> is the id \<^verbatim>\<open>Doc::addFunction\<close> gives a function
  it registers, from the functions registered so far. \<open>sequenceName n\<close> is
  \<^verbatim>\<open>QString("%1 %2").arg(n).arg(tr("Sequence"))\<close>. \<open>sceneValueKey\<close> stands for the order of
  \<^verbatim>\<open>SceneValue::operator<\<close>, declared outside this file: \<open>a < b\<close> there is
  \<open>sceneValueKey a < sceneValueKey b\<close> here.
\<close>

subsection \<open>updateColors\<close>

text \<open>
  \<^verbatim>\<open>setStartColor\<close> and \<^verbatim>\<open>setEndColor\<close> of the matrix store the colour they are given. The two
  icons are the pixmaps put on the colour buttons.
\<close>

definition updateColors ::
  "('h, 'i, 'k) env \<Rightarrow> RGBMatrix \<Rightarrow> ('h, 'i) editor \<Rightarrow> RGBMatrix \<times> ('h, 'i) editor" where
  "updateColors env mtx st =
     (case algorithm mtx of
        None \<Rightarrow> (mtx, st)
      | Some algo \<Rightarrow>
          let accColors = acceptColors algo in
          if accColors > 0 then
            if blendMode mtx = MaskBlend then
              let mtx1 = mtx\<lparr>startColor := Qt_white\<rparr>;
                  mtx2 = mtx1\<lparr>endColor := QColor_Invalid\<rparr>;
                  h = calculateColorDelta env (startColor mtx2) (endColor mtx2)
                        (m_previewHandler st)
              in (mtx2, st\<lparr>m_previewHandler := h, startColorIcon := FillColor Qt_white\<rparr>)
            else if colorModeIndex st \<noteq> ControlModeRgb env then
              let gray = (word_of_int (qGray (rgb (startColor mtx))) :: uchar);
                  st1 = st\<lparr>startColorIcon :=
                             FillColor (QColor3 (uint gray) (uint gray) (uint gray))\<rparr>;
                  mtx1 = mtx\<lparr>startColor := QColor3 (uint gray) (uint gray) (uint gray)\<rparr>;
                  (mtx2, st2) =
                    (if accColors > 1 then
                       let gray2 = (word_of_int (qGray (rgb (endColor mtx1))) :: uchar);
                           mtx2 = mtx1\<lparr>endColor :=
                                         QColor3 (uint gray2) (uint gray2) (uint gray2)\<rparr>;
                           pm = (if endColor mtx2 = QColor_Invalid then FillTransparent
                                 else FillColor (QColor3 (uint gray2) (uint gray2) (uint gray2)))
                       in (mtx2, st1\<lparr>endColorIcon := pm\<rparr>)
                     else (mtx1, st1));
                  h = calculateColorDelta env (startColor mtx2) (endColor mtx2)
                        (m_previewHandler st2)
              in (mtx2, st2\<lparr>m_previewHandler := h\<rparr>)
            else
              let st1 = st\<lparr>startColorIcon := FillColor (startColor mtx)\<rparr> in
              if accColors > 1 then
                let h = calculateColorDelta env (startColor mtx) (endColor mtx)
                          (m_previewHandler st1);
                    pm = (if endColor mtx = QColor_Invalid then FillTransparent
                          else FillColor (endColor mtx))
                in (mtx, st1\<lparr>m_previewHandler := h, endColorIcon := pm\<rparr>)
              else (mtx, st1)
          else (mtx, st))"

subsection \<open>The preview timer and the test button\<close>

definition timer_stop :: "('h, 'i) editor \<Rightarrow> ('h, 'i) editor" where
  "timer_stop st = st\<lparr>timerActive := False, timerOps := timerOps st @ [TimerStop]\<rparr>"

definition timer_start :: "uint \<Rightarrow> ('h, 'i) editor \<Rightarrow> ('h, 'i) editor" where
  "timer_start ms st =
     st\<lparr>timerActive := True, timerInterval := ms, timerOps := timerOps st @ [TimerStart ms]\<rparr>"

definition slotTestClicked :: "RGBMatrix \<Rightarrow> ('h, 'i) editor \<Rightarrow> RGBMatrix" where
  "slotTestClicked mtx st =
     (if testChecked st then mtx\<lparr>calls := calls mtx @ [Start]\<rparr>
      else mtx\<lparr>calls := calls mtx @ [StopAndWait]\<rparr>)"

text \<open>
  \<^verbatim>\<open>m_testButton->click()\<close> on the checkable test button: the checked state flips, then the
  \<^verbatim>\<open>clicked\<close> signal runs \<open>slotTestClicked\<close>. A disabled button would ignore the click; the
  calls modelled here are made on an enabled one, since each is guarded by \<^verbatim>\<open>isChecked()\<close> or
  follows such a click, and \<^verbatim>\<open>slotModeChanged\<close> unchecks the button before it disables it.
\<close>

definition testButton_click ::
  "RGBMatrix \<Rightarrow> ('h, 'i) editor \<Rightarrow> RGBMatrix \<times> ('h, 'i) editor" where
  "testButton_click mtx st =
     (let st1 = st\<lparr>testChecked := \<not> testChecked st\<rparr> in (slotTestClicked mtx st1, st1))"

subsection \<open>createPreviewItems\<close>

datatype fault = IndexOutOfRange

definition RECT_SIZE :: int where "RECT_SIZE = 30"
definition RECT_PADDING :: int where "RECT_PADDING = 0"
definition ITEM_SIZE :: int where "ITEM_SIZE = 28"
definition ITEM_PADDING :: int where "ITEM_PADDING = 2"

text \<open>
  \<^verbatim>\<open>m_map[y][x]\<close>. The vector does not check the index in a release build; the model makes a
  read outside the grid a fault.
\<close>

definition mapRead :: "uint list list \<Rightarrow> int \<Rightarrow> int \<Rightarrow> fault + uint" where
  "mapRead m y x =
     (if 0 \<le> y \<and> y < int (length m) then
        (if 0 \<le> x \<and> x < int (length (m ! nat y)) then Inr (m ! nat y ! nat x)
         else Inl IndexOutOfRange)
      else Inl IndexOutOfRange)"

text \<open>The grid positions in the order of the two nested loops: \<open>x\<close> outside, \<open>y\<close> inside.\<close>

definition gridPoints :: "FixtureGroup \<Rightarrow> QLCPoint list" where
  "gridPoints grp =
     concat (map (\<lambda>x. map (\<lambda>y. (x, y)) [0 .. grp_height grp - 1]) [0 .. grp_width grp - 1])"

fun addItems ::
  "('h, 'i, 'k) env \<Rightarrow> FixtureGroup \<Rightarrow> QLCPoint list \<Rightarrow> ('h, 'i) editor
     \<Rightarrow> fault + ('h, 'i) editor" where
  "addItems env grp [] st = Inr st"
| "addItems env grp (pt # pts) st =
     (if headsMap_contains grp pt then
        (case mapRead (m_map env (m_previewHandler st)) (snd pt) (fst pt) of
           Inl e \<Rightarrow> Inl e
         | Inr col \<Rightarrow>
             let item0 = newItem env (shapeChecked st)
                           (fst pt * RECT_SIZE + RECT_PADDING + ITEM_PADDING)
                           (snd pt * RECT_SIZE + RECT_PADDING + ITEM_PADDING)
                           (ITEM_SIZE - (2 * ITEM_PADDING))
                           (ITEM_SIZE - (2 * ITEM_PADDING));
                 item = item_draw env 0 0 (item_setColor env col item0)
             in addItems env grp pts
                  (st\<lparr>m_scene := m_scene st @ [HeadItem pt],
                      m_previewHash := (m_previewHash st)(pt \<mapsto> item)\<rparr>))
      else addItems env grp pts st)"

definition createPreviewItems ::
  "('h, 'i, 'k) env \<Rightarrow> RGBMatrix \<Rightarrow> ('h, 'i) editor \<Rightarrow> fault + (bool \<times> ('h, 'i) editor)" where
  "createPreviewItems env mtx st =
     (let st1 = st\<lparr>m_previewHash := Map.empty, m_scene := []\<rparr> in
      case doc_fixtureGroup (m_doc st1) (fixtureGroup mtx) of
        None \<Rightarrow>
          Inr (False, st1\<lparr>m_scene := m_scene st1 @ [TextItem ''No fixture group to control'']\<rparr>)
      | Some grp \<Rightarrow>
          let h1 = initializeDirection env (direction mtx) (startColor mtx) (endColor mtx)
                     (stepsCount env mtx) (m_previewHandler st1);
              h2 = previewMap env mtx (currentStepIndex env h1) h1;
              st2 = st1\<lparr>m_previewHandler := h2\<rparr>
          in if m_map env h2 = [] then Inr (False, st2)
             else (case addItems env grp (gridPoints grp) st2 of
                     Inl e \<Rightarrow> Inl e
                   | Inr st3 \<Rightarrow> Inr (True, st3)))"

subsection \<open>init and slotRestartTest\<close>

text \<open>
  Of \<^verbatim>\<open>init\<close>, the writes to the state modelled here: the colour mode combo, the two colour
  button icons and, last, the creation of the preview items and the start of the timer. The
  other statements of \<^verbatim>\<open>init\<close> fill widgets that no function below reads and connect signals.
\<close>

definition init ::
  "('h, 'i, 'k) env \<Rightarrow> RGBMatrix \<Rightarrow> ('h, 'i) editor \<Rightarrow> fault + ('h, 'i) editor" where
  "init env mtx st =
     (let st1 = st\<lparr>colorModeIndex := controlMode mtx,
                      startColorIcon := FillColor (startColor mtx),
                      endColorIcon := (if isValid (endColor mtx) then FillColor (endColor mtx)
                                       else FillTransparent)\<rparr>
      in case createPreviewItems env mtx st1 of
           Inl e \<Rightarrow> Inl e
         | Inr (created, st2) \<Rightarrow>
             Inr (if created then timer_start (tick env) st2 else st2))"

definition slotRestartTest ::
  "('h, 'i, 'k) env \<Rightarrow> RGBMatrix \<Rightarrow> ('h, 'i) editor
     \<Rightarrow> fault + (RGBMatrix \<times> ('h, 'i) editor)" where
  "slotRestartTest env mtx st =
     (let st1 = timer_stop st;
          (mtx2, st2) =
            (if testChecked st1 then
               let (mtxa, sta) = testButton_click mtx st1 in testButton_click mtxa sta
             else (mtx, st1))
      in case createPreviewItems env mtx2 st2 of
           Inl e \<Rightarrow> Inl e
         | Inr (created, st3) \<Rightarrow>
             Inr (mtx2, if created then timer_start (tick env) st3 else st3))"

subsection \<open>slotPreviewTimeout\<close>

text \<open>The macro of \<^verbatim>\<open>qlcmacros.h\<close>: \<^verbatim>\<open>((x < y) ? y : x)\<close>.\<close>

definition MAX_macro :: "uint \<Rightarrow> uint \<Rightarrow> uint" where
  "MAX_macro x y = (if x < y then y else x)"

text \<open>One round of the \<^verbatim>\<open>while\<close> loop on the handler: \<^verbatim>\<open>checkNextStep\<close>, then \<^verbatim>\<open>previewMap\<close>.\<close>

definition nextPreviewStep :: "('h, 'i, 'k) env \<Rightarrow> RGBMatrix \<Rightarrow> 'h \<Rightarrow> 'h" where
  "nextPreviewStep env mtx h =
     (let h1 = checkNextStep env (runOrder mtx) (startColor mtx) (endColor mtx)
                 (stepsCount env mtx) h
      in previewMap env mtx (currentStepIndex env h1) h1)"

text \<open>
  The \<^verbatim>\<open>while\<close> loop on \<^verbatim>\<open>m_previewIterator\<close>, the handler and \<^verbatim>\<open>elapsed\<close>. Nothing in the
  loop itself bounds it (with a duration and a tick of 0 it would not end), so it returns
  an option.
\<close>

partial_function (option) previewLoop ::
  "('h, 'i, 'k) env \<Rightarrow> RGBMatrix \<Rightarrow> uint \<Rightarrow> 'h \<Rightarrow> uint \<Rightarrow> (uint \<times> 'h \<times> uint) option" where
  "previewLoop env mtx it h elapsed =
     (if it \<ge> MAX_macro (duration mtx) (tick env) then
        previewLoop env mtx (it - MAX_macro (duration mtx) (tick env)) (nextPreviewStep env mtx h)
          (elapsed + MAX_macro (duration mtx) (tick env))
      else Some (it, h, elapsed))"

declare previewLoop.simps [code]

definition paintItem ::
  "('h, 'i, 'k) env \<Rightarrow> RGBMatrix \<Rightarrow> uint \<Rightarrow> uint \<Rightarrow> 'i \<Rightarrow> 'i" where
  "paintItem env mtx elapsed col shape =
     (let shape1 = (if item_color env shape \<noteq> rgb (QColor1 col)
                    then item_setColor env col shape else shape)
      in if item_color env shape1 = rgb Qt_black
         then item_draw env elapsed (fadeOutSpeed mtx) shape1
         else item_draw env elapsed (fadeInSpeed mtx) shape1)"

definition paintCell ::
  "('h, 'i, 'k) env \<Rightarrow> RGBMatrix \<Rightarrow> uint \<Rightarrow> uint list list \<Rightarrow> nat \<Rightarrow> nat
     \<Rightarrow> (QLCPoint \<Rightarrow> 'i option) \<Rightarrow> (QLCPoint \<Rightarrow> 'i option)" where
  "paintCell env mtx elapsed m y x hash =
     (case hash (int x, int y) of
        None \<Rightarrow> hash
      | Some shape \<Rightarrow> hash((int x, int y) \<mapsto> paintItem env mtx elapsed (m ! y ! x) shape))"

definition paintMap ::
  "('h, 'i, 'k) env \<Rightarrow> RGBMatrix \<Rightarrow> uint \<Rightarrow> uint list list
     \<Rightarrow> (QLCPoint \<Rightarrow> 'i option) \<Rightarrow> (QLCPoint \<Rightarrow> 'i option)" where
  "paintMap env mtx elapsed m hash =
     fold (\<lambda>y. fold (\<lambda>x. paintCell env mtx elapsed m y x) [0 ..< length (m ! y)])
       [0 ..< length m] hash"

definition slotPreviewTimeout ::
  "('h, 'i, 'k) env \<Rightarrow> RGBMatrix \<Rightarrow> ('h, 'i) editor \<Rightarrow> ('h, 'i) editor option" where
  "slotPreviewTimeout env mtx st =
     (if duration mtx \<le> 0 then Some st
      else
        (case previewLoop env mtx (m_previewIterator st + tick env) (m_previewHandler st) 0 of
           None \<Rightarrow> None
         | Some (it, h, elapsed) \<Rightarrow>
             Some (st\<lparr>m_previewIterator := it, m_previewHandler := h,
                       m_previewHash := paintMap env mtx elapsed (m_map env h) (m_previewHash st)\<rparr>)))"

subsection \<open>slotSaveToSequenceClicked\<close>

text \<open>The scene values one head contributes to the new scene, all at 0.\<close>

definition headSceneValues ::
  "('h, 'i, 'k) env \<Rightarrow> Doc \<Rightarrow> GroupHead \<Rightarrow> SceneValue list" where
  "headSceneValues env doc gh =
     (case doc_fixture doc (head_fxi gh) of
        None \<Rightarrow> []
      | Some fxi \<Rightarrow>
          let rgbCh = rgbChannels fxi (head_head gh);
              master = masterIntensityChannel fxi (head_head gh)
          in (if length rgbCh = 3 then
                [\<lparr>sv_fxi = head_fxi gh, sv_channel = rgbCh ! 0, sv_value = 0\<rparr>,
                 \<lparr>sv_fxi = head_fxi gh, sv_channel = rgbCh ! 1, sv_value = 0\<rparr>,
                 \<lparr>sv_fxi = head_fxi gh, sv_channel = rgbCh ! 2, sv_value = 0\<rparr>]
              else [])
             @ (if master \<noteq> channelInvalid env then
                  [\<lparr>sv_fxi = head_fxi gh, sv_channel = master, sv_value = 0\<rparr>]
                else []))"

text \<open>The values one cell of the colour grid appends to a step.\<close>

definition cellValues ::
  "('h, 'i, 'k) env \<Rightarrow> Doc \<Rightarrow> FixtureGroup \<Rightarrow> uint list list \<Rightarrow> nat \<Rightarrow> nat
     \<Rightarrow> SceneValue list" where
  "cellValues env doc grp m y x =
     (let col = m ! y ! x;
          c = QColor1 col;
          gh = grp_head grp (int x, int y)
      in case doc_fixture doc (head_fxi gh) of
           None \<Rightarrow> []
         | Some fxi \<Rightarrow>
             let rgbCh = rgbChannels fxi (head_head gh);
                 master = masterIntensityChannel fxi (head_head gh)
             in (if length rgbCh = 3 then
                   [\<lparr>sv_fxi = head_fxi gh, sv_channel = rgbCh ! 0, sv_value = word_of_int (red c)\<rparr>,
                    \<lparr>sv_fxi = head_fxi gh, sv_channel = rgbCh ! 1, sv_value = word_of_int (green c)\<rparr>,
                    \<lparr>sv_fxi = head_fxi gh, sv_channel = rgbCh ! 2, sv_value = word_of_int (blue c)\<rparr>]
                 else [])
                @ (if master \<noteq> channelInvalid env then
                     [\<lparr>sv_fxi = head_fxi gh, sv_channel = master,
                       sv_value = (if col = 0 then 0 else 255)\<rparr>]
                   else []))"

definition mapValues ::
  "('h, 'i, 'k) env \<Rightarrow> Doc \<Rightarrow> FixtureGroup \<Rightarrow> uint list list \<Rightarrow> SceneValue list" where
  "mapValues env doc grp m =
     concat (map (\<lambda>y. concat (map (\<lambda>x. cellValues env doc grp m y x) [0 ..< length (m ! y)]))
       [0 ..< length m])"

text \<open>
  The variables of the \<^verbatim>\<open>for\<close> loop. \<open>ex_visited\<close> is not in the source: it collects the step
  index of every \<^verbatim>\<open>previewMap\<close> call the loop makes, in order.
\<close>

record 'h exportState =
  ex_i :: int
  ex_currentStep :: int
  ex_increment :: int
  ex_handler :: 'h
  ex_steps :: "ChaserStep list"
  ex_visited :: "int list"

text \<open>
  The chaser step built in one round from the handler \<open>h1\<close> that \<^verbatim>\<open>previewMap\<close> has filled.
  \<^verbatim>\<open>std::sort\<close> leaves the values ordered by \<^verbatim>\<open>operator<\<close>; the order it gives to values
  that compare equal is not specified, and \<open>sort_key\<close> keeps theirs. The subtraction in
  \<open>hold\<close> is the unsigned 32-bit one of the source.
\<close>

definition chaserStep ::
  "('h, 'i, 'k::linorder) env \<Rightarrow> RGBMatrix \<Rightarrow> Doc \<Rightarrow> FixtureGroup \<Rightarrow> quint32 \<Rightarrow> 'h
     \<Rightarrow> ChaserStep" where
  "chaserStep env mtx doc grp sceneId h1 =
     \<lparr>fid = sceneId,
      hold = duration mtx - fadeInSpeed mtx,
      step_duration = duration mtx,
      fadeIn = fadeInSpeed mtx,
      fadeOut = fadeOutSpeed mtx,
      step_values = sort_key (sceneValueKey env) (mapValues env doc grp (m_map env h1))\<rparr>"

text \<open>
  One round of the loop. The \<^verbatim>\<open>int\<close> variables are unbounded integers here: the source's
  signed arithmetic is undefined on overflow and step counts are far from it.
\<close>

definition exportStep ::
  "('h, 'i, 'k::linorder) env \<Rightarrow> RGBMatrix \<Rightarrow> Doc \<Rightarrow> FixtureGroup \<Rightarrow> quint32 \<Rightarrow> int
     \<Rightarrow> 'h exportState \<Rightarrow> 'h exportState" where
  "exportStep env mtx doc grp sceneId totalSteps s =
     (let h1 = previewMap env mtx (ex_currentStep s) (ex_handler s);
          step = chaserStep env mtx doc grp sceneId h1;
          cur1 = ex_currentStep s + ex_increment s;
          (cur2, inc2) = (if cur1 = totalSteps \<and> runOrder mtx = PingPong
                          then (totalSteps - 2, - 1) else (cur1, ex_increment s));
          h2 = updateStepColor env cur2 (startColor mtx) (stepsCount env mtx) h1
      in \<lparr>ex_i = ex_i s + 1, ex_currentStep = cur2, ex_increment = inc2, ex_handler = h2,
          ex_steps = ex_steps s @ [step], ex_visited = ex_visited s @ [ex_currentStep s]\<rparr>)"

function exportLoop ::
  "('h, 'i, 'k::linorder) env \<Rightarrow> RGBMatrix \<Rightarrow> Doc \<Rightarrow> FixtureGroup \<Rightarrow> quint32 \<Rightarrow> int
     \<Rightarrow> 'h exportState \<Rightarrow> 'h exportState" where
  "exportLoop env mtx doc grp sceneId totalSteps s =
     (if ex_i s < totalSteps
      then exportLoop env mtx doc grp sceneId totalSteps
             (exportStep env mtx doc grp sceneId totalSteps s)
      else s)"
  by pat_completeness auto
termination
  by (relation "measure (\<lambda>(env, mtx, doc, grp, sceneId, totalSteps, s). nat (totalSteps - ex_i s))")
     (auto simp: exportStep_def Let_def split: prod.splits)

declare exportLoop.simps [simp del]

text \<open>The state in which the loop starts: lines 1088 to 1103 of the source.\<close>

definition exportInit ::
  "('h, 'i, 'k) env \<Rightarrow> RGBMatrix \<Rightarrow> 'h \<Rightarrow> int \<times> 'h exportState" where
  "exportInit env mtx h =
     (let totalSteps = stepsCount env mtx;
          h1 = setStepColor env (startColor mtx) h;
          (cur, inc, h2) =
            (if direction mtx = Backward then
               (totalSteps - 1, - 1,
                if isValid (endColor mtx) then setStepColor env (endColor mtx) h1 else h1)
             else (0, 1, h1));
          h3 = calculateColorDelta env (startColor mtx) (endColor mtx) h2;
          totalSteps2 = (if runOrder mtx = PingPong then (totalSteps * 2) - 1 else totalSteps)
      in (totalSteps2,
          \<lparr>ex_i = 0, ex_currentStep = cur, ex_increment = inc, ex_handler = h3,
           ex_steps = [], ex_visited = []\<rparr>))"

text \<open>\<^verbatim>\<open>Doc::addFunction\<close> gives the function an id and registers it.\<close>

definition addScene :: "('h, 'i, 'k) env \<Rightarrow> Doc \<Rightarrow> Scene \<Rightarrow> Scene \<times> Doc" where
  "addScene env doc sc =
     (let sc1 = sc\<lparr>scene_id := createFunctionId env (doc_functions doc)\<rparr>
      in (sc1, doc\<lparr>doc_functions := doc_functions doc @ [SceneFunction sc1]\<rparr>))"

definition addSequence :: "('h, 'i, 'k) env \<Rightarrow> Doc \<Rightarrow> Sequence \<Rightarrow> Sequence \<times> Doc" where
  "addSequence env doc sq =
     (let sq1 = sq\<lparr>seq_id := createFunctionId env (doc_functions doc)\<rparr>
      in (sq1, doc\<lparr>doc_functions := doc_functions doc @ [SequenceFunction sq1]\<rparr>))"

text \<open>The scene the export builds from the group, before the document gives it an id.\<close>

definition exportScene :: "('h, 'i, 'k) env \<Rightarrow> Doc \<Rightarrow> FixtureGroup \<Rightarrow> Scene" where
  "exportScene env doc grp =
     (newScene env)\<lparr>scene_name := grp_name grp, scene_visible := False,
                     scene_values := scene_values (newScene env)
                                       @ concat (map (headSceneValues env doc) (headList grp))\<rparr>"

text \<open>The loop run from its initial state: lines 1088 to 1103 and 1122 to 1169.\<close>

definition exportRun ::
  "('h, 'i, 'k::linorder) env \<Rightarrow> RGBMatrix \<Rightarrow> Doc \<Rightarrow> FixtureGroup \<Rightarrow> quint32 \<Rightarrow> 'h
     \<Rightarrow> 'h exportState" where
  "exportRun env mtx doc grp sceneId h =
     (let (totalSteps, s0) = exportInit env mtx h
      in exportLoop env mtx doc grp sceneId totalSteps s0)"

text \<open>
  The sequence with its settings (lines 1105 to 1120) and the steps the loop added to it
  with \<^verbatim>\<open>addStep\<close>, before \<^verbatim>\<open>addFunction\<close>.
\<close>

definition exportSequence ::
  "('h, 'i, 'k) env \<Rightarrow> RGBMatrix \<Rightarrow> quint32 \<Rightarrow> ChaserStep list \<Rightarrow> Sequence" where
  "exportSequence env mtx sceneId added =
     (let sq1 = (newSequence env)\<lparr>seq_name := sequenceName env (mtx_name mtx),
                                    boundSceneID := sceneId,
                                    durationMode := PerStep,
                                    seq_duration := duration mtx\<rparr>;
          sq2 = (if fadeInSpeed mtx \<noteq> 0
                 then sq1\<lparr>fadeInMode := PerStep, seq_fadeInSpeed := fadeInSpeed mtx\<rparr> else sq1);
          sq3 = (if fadeOutSpeed mtx \<noteq> 0
                 then sq2\<lparr>fadeOutMode := PerStep, seq_fadeOutSpeed := fadeOutSpeed mtx\<rparr> else sq2)
      in sq3\<lparr>steps := steps sq3 @ added\<rparr>)"

text \<open>
  The body of the export from line 1054 to line 1171, when the group and the algorithm are
  there: the test or the timer is stopped, the scene and the sequence are built and
  registered. It returns the matrix, the editor, the two registered functions and the final
  state of the loop.
\<close>

definition exportFunctions ::
  "('h, 'i, 'k::linorder) env \<Rightarrow> RGBMatrix \<Rightarrow> FixtureGroup \<Rightarrow> ('h, 'i) editor
     \<Rightarrow> RGBMatrix \<times> ('h, 'i) editor \<times> Scene \<times> Sequence \<times> 'h exportState" where
  "exportFunctions env mtx grp st =
     (let (mtx1, st1) = (if testChecked st then testButton_click mtx st
                         else (mtx, timer_stop st));
          (grpScene, doc1) = addScene env (m_doc st1) (exportScene env (m_doc st1) grp);
          s = exportRun env mtx1 doc1 grp (scene_id grpScene) (m_previewHandler st1);
          (sequence, doc2) =
            addSequence env doc1 (exportSequence env mtx1 (scene_id grpScene) (ex_steps s))
      in (mtx1, st1\<lparr>m_doc := doc2, m_previewHandler := ex_handler s\<rparr>, grpScene, sequence, s))"

definition slotSaveToSequenceClicked ::
  "('h, 'i, 'k::linorder) env \<Rightarrow> RGBMatrix option \<Rightarrow> ('h, 'i) editor
     \<Rightarrow> fault + (RGBMatrix option \<times> ('h, 'i) editor)" where
  "slotSaveToSequenceClicked env m_matrix st =
     (case m_matrix of
        None \<Rightarrow> Inr (m_matrix, st)
      | Some mtx \<Rightarrow>
          if fixtureGroup mtx = invalidId env then Inr (m_matrix, st)
          else
            (case doc_fixtureGroup (m_doc st) (fixtureGroup mtx) of
               None \<Rightarrow> Inr (m_matrix, st)
             | Some grp \<Rightarrow>
                 if algorithm mtx = None then Inr (m_matrix, st)
                 else
                   let testRunning = testChecked st;
                       (mtx1, st2, grpScene, sequence, s) = exportFunctions env mtx grp st
                   in if testRunning then
                        (let (mtx3, st3) = testButton_click mtx1 st2 in Inr (Some mtx3, st3))
                      else
                        (case createPreviewItems env mtx1 st2 of
                           Inl e \<Rightarrow> Inl e
                         | Inr (created, st3) \<Rightarrow>
                             Inr (Some mtx1,
                                  if created then timer_start (tick env) st3 else st3))))"

subsection \<open>The slots that change a Text or Image algorithm\<close>












subsection \<open>A small installation to run the model on\<close>

text \<open>
  A handler that is a step index and a colour grid; preview items that are their colour. The
  grid has one row of two cells whose colours depend on the step. Two heads stand on the
  grid, the left one on the fixture with the larger id.
\<close>

definition demo_env :: "(int \<times> uint list list, uint, int) env" where
  "demo_env =
     \<lparr>tick = 20, ControlModeRgb = 0, invalidId = 0xFFFFFFFF, channelInvalid = 0xFFFFFFFF,
      stepsCount = (\<lambda>mtx. 3),
      previewMap = (\<lambda>mtx step h. (fst h, [[word_of_int (step + 1), 0]])),
      calculateColorDelta = (\<lambda>sc ec h. h),
      initializeDirection = (\<lambda>d sc ec n h. (if d = Backward then n - 1 else 0, snd h)),
      checkNextStep = (\<lambda>ro sc ec n h. (fst h + 1, snd h)),
      setStepColor = (\<lambda>c h. h),
      updateStepColor = (\<lambda>step c n h. h),
      currentStepIndex = fst,
      m_map = snd,
      newItem = (\<lambda>shape x y w h. 0),
      item_color = (\<lambda>i. i),
      item_setColor = (\<lambda>c i. c),
      item_draw = (\<lambda>elapsed target i. i),
      newScene = \<lparr>scene_id = 0xFFFFFFFF, scene_name = [], scene_visible = True,
                    scene_values = []\<rparr>,
      newSequence = \<lparr>seq_id = 0xFFFFFFFF, seq_name = [], boundSceneID = 0xFFFFFFFF,
                       durationMode = Common, seq_duration = 0, fadeInMode = Default,
                       seq_fadeInSpeed = 0, fadeOutMode = Default, seq_fadeOutSpeed = 0,
                       steps = []\<rparr>,
      createFunctionId = (\<lambda>fs. word_of_nat (length fs)),
      sequenceName = (\<lambda>n. n @ '' Sequence''),
      sceneValueKey = (\<lambda>v. uint (sv_fxi v) * 4294967296 + uint (sv_channel v))\<rparr>"

definition demo_group :: FixtureGroup where
  "demo_group =
     \<lparr>grp_name = ''G'', grp_width = 2, grp_height = 1,
      headsMap_contains = (\<lambda>pt. pt = (0, 0) \<or> pt = (1, 0)),
      grp_head = (\<lambda>pt. if pt = (0, 0) then \<lparr>head_fxi = 7, head_head = 0\<rparr>
                       else if pt = (1, 0) then \<lparr>head_fxi = 5, head_head = 0\<rparr>
                       else \<lparr>head_fxi = 0xFFFFFFFF, head_head = - 1\<rparr>),
      headList = [\<lparr>head_fxi = 7, head_head = 0\<rparr>, \<lparr>head_fxi = 5, head_head = 0\<rparr>]\<rparr>"

definition demo_doc :: Doc where
  "demo_doc =
     \<lparr>doc_fixtureGroup = (\<lambda>id. if id = 1 then Some demo_group else None),
      doc_fixture =
        (\<lambda>id. if id = 7 then
                 Some \<lparr>rgbChannels = (\<lambda>hd. [0, 1, 2]),
                       masterIntensityChannel = (\<lambda>hd. 0xFFFFFFFF)\<rparr>
               else if id = 5 then
                 Some \<lparr>rgbChannels = (\<lambda>hd. []), masterIntensityChannel = (\<lambda>hd. 3)\<rparr>
               else None),
      doc_functions = []\<rparr>"

definition demo_matrix :: RGBMatrix where
  "demo_matrix =
     \<lparr>mtx_name = ''M'', runOrder = PingPong, direction = Forward, blendMode = NormalBlend,
      controlMode = 1, startColor = QColor_Rgb 10 20 30, endColor = QColor_Invalid,
      fixtureGroup = 1, algorithm = Some \<lparr>algo_type = Plain, acceptColors = 2\<rparr>,
      duration = 100, fadeInSpeed = 30, fadeOutSpeed = 0, calls = []\<rparr>"

definition demo_editor :: "(int \<times> uint list list, uint) editor" where
  "demo_editor =
     \<lparr>m_doc = demo_doc, m_previewHandler = (0, []), m_scene = [], m_previewHash = Map.empty,
      m_previewIterator = 0, timerActive = False, timerInterval = 0, timerOps = [],
      testChecked = False, shapeChecked = False, colorModeIndex = 1,
      startColorIcon = FillTransparent, endColorIcon = FillTransparent\<rparr>"

text \<open>Three runs of the export body on this installation.\<close>

definition demo_export ::
  "RGBMatrix \<times> (int \<times> uint list list, uint) editor \<times> Scene \<times> Sequence
     \<times> (int \<times> uint list list) exportState" where
  "demo_export = exportFunctions demo_env demo_matrix demo_group demo_editor"

definition demo_export_backward ::
  "RGBMatrix \<times> (int \<times> uint list list, uint) editor \<times> Scene \<times> Sequence
     \<times> (int \<times> uint list list) exportState" where
  "demo_export_backward =
     exportFunctions demo_env (demo_matrix\<lparr>direction := Backward\<rparr>) demo_group demo_editor"

definition demo_export_loop ::
  "RGBMatrix \<times> (int \<times> uint list list, uint) editor \<times> Scene \<times> Sequence
     \<times> (int \<times> uint list list) exportState" where
  "demo_export_loop =
     exportFunctions demo_env (demo_matrix\<lparr>runOrder := Loop\<rparr>) demo_group demo_editor"



section \<open>Properties\<close>

subsection \<open>Colour arithmetic\<close>

lemma qRed_range: "0 \<le> qRed c \<and> qRed c \<le> 255"
proof -
  have "drop_bit 16 c AND 0xff \<le> (0xff :: 32 word)" by (rule word_and_le1)
  then have "uint (drop_bit 16 c AND 0xff) \<le> uint (0xff :: 32 word)" by (simp add: word_le_def)
  then show ?thesis by (simp add: qRed_def)
qed

lemma qGreen_range: "0 \<le> qGreen c \<and> qGreen c \<le> 255"
proof -
  have "drop_bit 8 c AND 0xff \<le> (0xff :: 32 word)" by (rule word_and_le1)
  then have "uint (drop_bit 8 c AND 0xff) \<le> uint (0xff :: 32 word)" by (simp add: word_le_def)
  then show ?thesis by (simp add: qGreen_def)
qed

lemma qBlue_range: "0 \<le> qBlue c \<and> qBlue c \<le> 255"
proof -
  have "c AND 0xff \<le> (0xff :: 32 word)" by (rule word_and_le1)
  then have "uint (c AND 0xff) \<le> uint (0xff :: 32 word)" by (simp add: word_le_def)
  then show ?thesis by (simp add: qBlue_def)
qed

lemma qGray_range: "0 \<le> qGray c \<and> qGray c \<le> 255"
proof -
  note r = qRed_range [of c] and g = qGreen_range [of c] and b = qBlue_range [of c]
  have "0 \<le> qRed c * 11 + qGreen c * 16 + qBlue c * 5" using r g b by simp
  moreover have "qRed c * 11 + qGreen c * 16 + qBlue c * 5 \<le> 255 * 32" using r g b by simp
  ultimately show ?thesis unfolding qGray_def by arith
qed

lemma uchar_qGray: "uint (word_of_int (qGray c) :: uchar) = qGray c"
  using qGray_range [of c] by (simp add: uint_word_of_int)

lemma QColor3_gray:
  "QColor3 (qGray c) (qGray c) (qGray c) =
     QColor_Rgb (word_of_int (qGray c)) (word_of_int (qGray c)) (word_of_int (qGray c))"
  using qGray_range [of c] by (simp add: QColor3_def)

lemma red_gray: "red (QColor3 (qGray c) (qGray c) (qGray c)) = qGray c"
  by (simp add: QColor3_gray red_def uchar_qGray)
lemma green_gray: "green (QColor3 (qGray c) (qGray c) (qGray c)) = qGray c"
  by (simp add: QColor3_gray green_def uchar_qGray)
lemma blue_gray: "blue (QColor3 (qGray c) (qGray c) (qGray c)) = qGray c"
  by (simp add: QColor3_gray blue_def uchar_qGray)
lemma isValid_gray: "isValid (QColor3 (qGray c) (qGray c) (qGray c))"
  by (simp add: QColor3_gray isValid_def)


subsection \<open>updateColors\<close>

text \<open>
  Claim C8. When the algorithm accepts at least one colour, the blend mode is not
  \<^verbatim>\<open>MaskBlend\<close> and the colour mode combo does not select RGB, \<open>updateColors\<close> leaves a start
  colour whose red, green and blue all equal the gray value of the previous start colour;
  when the algorithm accepts more than one colour the end colour likewise has three equal
  components, the gray value of the previous end colour.
\<close>

theorem updateColors_grayscale:
  assumes "algorithm mtx = Some algo" and "0 < acceptColors algo"
    and "blendMode mtx \<noteq> MaskBlend" and "colorModeIndex st \<noteq> ControlModeRgb env"
  shows "isValid (startColor (fst (updateColors env mtx st))) \<and>
         red (startColor (fst (updateColors env mtx st))) = qGray (rgb (startColor mtx)) \<and>
         green (startColor (fst (updateColors env mtx st))) = qGray (rgb (startColor mtx)) \<and>
         blue (startColor (fst (updateColors env mtx st))) = qGray (rgb (startColor mtx)) \<and>
         (1 < acceptColors algo \<longrightarrow>
            isValid (endColor (fst (updateColors env mtx st))) \<and>
            red (endColor (fst (updateColors env mtx st))) = qGray (rgb (endColor mtx)) \<and>
            green (endColor (fst (updateColors env mtx st))) = qGray (rgb (endColor mtx)) \<and>
            blue (endColor (fst (updateColors env mtx st))) = qGray (rgb (endColor mtx)))"
proof -
  let ?g = "qGray (rgb (startColor mtx))" and ?e = "qGray (rgb (endColor mtx))"
  have start: "startColor (fst (updateColors env mtx st)) = QColor3 ?g ?g ?g"
    using assms by (simp add: updateColors_def Let_def uchar_qGray split: prod.splits)
  have "endColor (fst (updateColors env mtx st)) = QColor3 ?e ?e ?e" if "1 < acceptColors algo"
    using assms that by (simp add: updateColors_def Let_def uchar_qGray split: prod.splits)
  with start show ?thesis
    by (simp add: red_gray green_gray blue_gray isValid_gray)
qed

theorem updateColors_grayscale_witness:
  "red (startColor (fst (updateColors demo_env demo_matrix demo_editor))) = 18 \<and>
   green (startColor (fst (updateColors demo_env demo_matrix demo_editor))) = 18 \<and>
   blue (startColor (fst (updateColors demo_env demo_matrix demo_editor))) = 18 \<and>
   red (endColor (fst (updateColors demo_env demo_matrix demo_editor))) = 0 \<and>
   green (endColor (fst (updateColors demo_env demo_matrix demo_editor))) = 0 \<and>
   blue (endColor (fst (updateColors demo_env demo_matrix demo_editor))) = 0"
proof -
  have g: "qGray (rgb (startColor demo_matrix)) = 18" "qGray (rgb (endColor demo_matrix)) = 0"
    by (simp_all add: demo_matrix_def qGray_def rgb_def qRed_def qGreen_def qBlue_def)
  show ?thesis
    using updateColors_grayscale [where mtx = demo_matrix and st = demo_editor
        and env = demo_env and algo = "\<lparr>algo_type = Plain, acceptColors = 2\<rparr>"]
    by (simp add: g) (simp add: demo_matrix_def demo_editor_def demo_env_def)
qed

text \<open>
  Claim C10. When the algorithm accepts at least one colour and the blend mode is
  \<^verbatim>\<open>MaskBlend\<close>, \<open>updateColors\<close> sets the start colour to white and the end colour to the invalid
  colour, and the handler's colour delta is recalculated from these two values.
\<close>

theorem updateColors_MaskBlend:
  assumes "algorithm mtx = Some algo" and "0 < acceptColors algo"
    and "blendMode mtx = MaskBlend"
  shows "startColor (fst (updateColors env mtx st)) = Qt_white \<and>
         endColor (fst (updateColors env mtx st)) = QColor_Invalid \<and>
         m_previewHandler (snd (updateColors env mtx st)) =
           calculateColorDelta env Qt_white QColor_Invalid (m_previewHandler st)"
  using assms by (simp add: updateColors_def Let_def)

theorem updateColors_MaskBlend_witness:
  "startColor (fst (updateColors demo_env (demo_matrix\<lparr>blendMode := MaskBlend\<rparr>) demo_editor))
     = QColor_Rgb 255 255 255 \<and>
   endColor (fst (updateColors demo_env (demo_matrix\<lparr>blendMode := MaskBlend\<rparr>) demo_editor))
     = QColor_Invalid \<and>
   m_previewHandler (snd (updateColors demo_env (demo_matrix\<lparr>blendMode := MaskBlend\<rparr>)
     demo_editor)) = (0, [])"
  using updateColors_MaskBlend [where mtx = "demo_matrix\<lparr>blendMode := MaskBlend\<rparr>"
      and st = demo_editor and env = demo_env
      and algo = "\<lparr>algo_type = Plain, acceptColors = 2\<rparr>"]
  by (simp add: demo_matrix_def demo_editor_def demo_env_def Qt_white_def)

subsection \<open>The early returns of the export\<close>

text \<open>
  Claim C3. When the matrix pointer is null, the matrix has no fixture group bound, the
  document has no group under the bound id, or the matrix has no algorithm,
  \<open>slotSaveToSequenceClicked\<close> returns with the matrix and the whole editor state, the
  document's functions among it, as they were.
\<close>

theorem slotSaveToSequenceClicked_early_return:
  assumes "m_matrix = None \<or>
           (\<exists>mtx. m_matrix = Some mtx \<and>
              (fixtureGroup mtx = invalidId env \<or>
               doc_fixtureGroup (m_doc st) (fixtureGroup mtx) = None \<or>
               algorithm mtx = None))"
  shows "slotSaveToSequenceClicked env m_matrix st = Inr (m_matrix, st)"
  using assms by (auto simp: slotSaveToSequenceClicked_def split: option.splits)

theorem slotSaveToSequenceClicked_early_return_witness:
  "slotSaveToSequenceClicked demo_env None demo_editor = Inr (None, demo_editor) \<and>
   slotSaveToSequenceClicked demo_env (Some (demo_matrix\<lparr>fixtureGroup := 0xFFFFFFFF\<rparr>)) demo_editor
     = Inr (Some (demo_matrix\<lparr>fixtureGroup := 0xFFFFFFFF\<rparr>), demo_editor) \<and>
   slotSaveToSequenceClicked demo_env (Some (demo_matrix\<lparr>fixtureGroup := 2\<rparr>)) demo_editor
     = Inr (Some (demo_matrix\<lparr>fixtureGroup := 2\<rparr>), demo_editor) \<and>
   slotSaveToSequenceClicked demo_env (Some (demo_matrix\<lparr>algorithm := None\<rparr>)) demo_editor
     = Inr (Some (demo_matrix\<lparr>algorithm := None\<rparr>), demo_editor)"
proof -
  have a: "slotSaveToSequenceClicked demo_env None demo_editor = Inr (None, demo_editor)"
    using slotSaveToSequenceClicked_early_return
      [where m_matrix = None and env = demo_env and st = demo_editor]
    by simp
  have b: "slotSaveToSequenceClicked demo_env (Some (demo_matrix\<lparr>fixtureGroup := 0xFFFFFFFF\<rparr>))
             demo_editor = Inr (Some (demo_matrix\<lparr>fixtureGroup := 0xFFFFFFFF\<rparr>), demo_editor)"
    using slotSaveToSequenceClicked_early_return
      [where m_matrix = "Some (demo_matrix\<lparr>fixtureGroup := 0xFFFFFFFF\<rparr>)" and env = demo_env
         and st = demo_editor]
    by (simp add: demo_env_def)
  have c: "slotSaveToSequenceClicked demo_env (Some (demo_matrix\<lparr>fixtureGroup := 2\<rparr>))
             demo_editor = Inr (Some (demo_matrix\<lparr>fixtureGroup := 2\<rparr>), demo_editor)"
    using slotSaveToSequenceClicked_early_return
      [where m_matrix = "Some (demo_matrix\<lparr>fixtureGroup := 2\<rparr>)" and env = demo_env
         and st = demo_editor]
    by (simp add: demo_editor_def demo_doc_def)
  have d: "slotSaveToSequenceClicked demo_env (Some (demo_matrix\<lparr>algorithm := None\<rparr>))
             demo_editor = Inr (Some (demo_matrix\<lparr>algorithm := None\<rparr>), demo_editor)"
    using slotSaveToSequenceClicked_early_return
      [where m_matrix = "Some (demo_matrix\<lparr>algorithm := None\<rparr>)" and env = demo_env
         and st = demo_editor]
    by simp
  from a b c d show ?thesis by simp
qed

subsection \<open>The preview items and the timer\<close>

lemma addItems_frame:
  "addItems env grp pts st = Inr st' \<Longrightarrow>
     timerOps st' = timerOps st \<and> timerActive st' = timerActive st \<and>
     timerInterval st' = timerInterval st \<and> testChecked st' = testChecked st \<and>
     m_doc st' = m_doc st \<and> m_previewHandler st' = m_previewHandler st \<and>
     m_previewIterator st' = m_previewIterator st"
proof (induction pts arbitrary: st)
  case Nil
  then show ?case by simp
next
  case (Cons pt pts)
  show ?case
  proof (cases "headsMap_contains grp pt")
    case False
    with Cons show ?thesis by simp
  next
    case True
    with Cons.prems obtain col where
      rd: "mapRead (m_map env (m_previewHandler st)) (snd pt) (fst pt) = Inr col"
      by (auto split: sum.splits)
    from Cons.prems True rd show ?thesis
      by (auto simp: Let_def dest!: Cons.IH)
  qed
qed

lemma createPreviewItems_frame:
  assumes "createPreviewItems env mtx st = Inr (created, st')"
  shows "timerOps st' = timerOps st \<and> timerActive st' = timerActive st \<and>
         timerInterval st' = timerInterval st \<and> testChecked st' = testChecked st \<and>
         m_doc st' = m_doc st \<and> m_previewIterator st' = m_previewIterator st"
  using assms
  by (auto simp: createPreviewItems_def Let_def split: option.splits if_splits sum.splits
      dest!: addItems_frame)

lemma testButton_click_twice:
  assumes "testChecked st"
  shows "(let (mtxa, sta) = testButton_click mtx st in testButton_click mtxa sta) =
           (mtx\<lparr>calls := calls mtx @ [StopAndWait, Start]\<rparr>, st)"
  using assms by (cases st) (simp add: testButton_click_def slotTestClicked_def Let_def)

lemma slotRestartTest_unfold:
  "slotRestartTest env mtx st =
     (case createPreviewItems env
             (if testChecked st then mtx\<lparr>calls := calls mtx @ [StopAndWait, Start]\<rparr> else mtx)
             (timer_stop st) of
        Inl e \<Rightarrow> Inl e
      | Inr (created, st3) \<Rightarrow>
          Inr (if testChecked st then mtx\<lparr>calls := calls mtx @ [StopAndWait, Start]\<rparr> else mtx,
               if created then timer_start (tick env) st3 else st3))"
proof (cases "testChecked st")
  case True
  then have c: "testChecked (timer_stop st)" by (simp add: timer_stop_def)
  from testButton_click_twice [OF c] True c show ?thesis
    by (simp add: slotRestartTest_def Let_def)
next
  case False
  then have "\<not> testChecked (timer_stop st)" by (simp add: timer_stop_def)
  with False show ?thesis by (simp add: slotRestartTest_def Let_def)
qed

lemma createPreviewItems_no_group_eq:
  assumes "doc_fixtureGroup (m_doc st) (fixtureGroup mtx) = None"
  shows "createPreviewItems env mtx st =
           Inr (False, st\<lparr>m_previewHash := Map.empty,
                           m_scene := [TextItem ''No fixture group to control'']\<rparr>)"
  using assms by (simp add: createPreviewItems_def Let_def)

text \<open>
  \<open>createPreviewItems\<close> returns whenever the grid the handler holds after \<^verbatim>\<open>previewMap\<close>
  covers every position of the group that has a head.
\<close>

lemma addItems_returns:
  assumes "\<forall>pt \<in> set pts. headsMap_contains grp pt \<longrightarrow>
             0 \<le> snd pt \<and> snd pt < int (length (m_map env (m_previewHandler st))) \<and>
             0 \<le> fst pt \<and>
             fst pt < int (length (m_map env (m_previewHandler st) ! nat (snd pt)))"
  shows "\<exists>st'. addItems env grp pts st = Inr st'"
  using assms
proof (induction pts arbitrary: st)
  case Nil
  then show ?case by simp
next
  case (Cons pt pts)
  show ?case
  proof (cases "headsMap_contains grp pt")
    case False
    with Cons show ?thesis by simp
  next
    case True
    with Cons.prems have
      "mapRead (m_map env (m_previewHandler st)) (snd pt) (fst pt) =
         Inr (m_map env (m_previewHandler st) ! nat (snd pt) ! nat (fst pt))"
      by (simp add: mapRead_def)
    with True Cons.prems show ?thesis
      by (simp add: Let_def Cons.IH)
  qed
qed

lemma createPreviewItems_returns:
  assumes "doc_fixtureGroup (m_doc st) (fixtureGroup mtx) = Some grp"
    and "h2 = previewMap env mtx
                (currentStepIndex env
                   (initializeDirection env (direction mtx) (startColor mtx) (endColor mtx)
                      (stepsCount env mtx) (m_previewHandler st)))
                (initializeDirection env (direction mtx) (startColor mtx) (endColor mtx)
                   (stepsCount env mtx) (m_previewHandler st))"
    and "\<forall>pt \<in> set (gridPoints grp). headsMap_contains grp pt \<longrightarrow>
             0 \<le> snd pt \<and> snd pt < int (length (m_map env h2)) \<and>
             0 \<le> fst pt \<and> fst pt < int (length (m_map env h2 ! nat (snd pt)))"
  shows "\<exists>st'. createPreviewItems env mtx st = Inr (m_map env h2 \<noteq> [], st')"
proof (cases "m_map env h2 = []")
  case True
  with assms(1,2) show ?thesis by (simp add: createPreviewItems_def Let_def)
next
  case False
  let ?st2 = "st\<lparr>m_previewHash := Map.empty, m_scene := [], m_previewHandler := h2\<rparr>"
  have "\<exists>st'. addItems env grp (gridPoints grp) ?st2 = Inr st'"
    by (rule addItems_returns) (use assms(3) in simp)
  with False assms(1,2) show ?thesis
    by (auto simp: createPreviewItems_def Let_def)
qed

text \<open>
  Claim C5. When the document has no fixture group under the matrix's group id,
  \<open>createPreviewItems\<close> returns false and leaves a scene that holds the placeholder text and
  no head item, with an empty preview hash; \<open>init\<close> then makes no call on the preview timer
  and \<open>slotRestartTest\<close> only stops it.
\<close>

theorem createPreviewItems_no_group:
  assumes "doc_fixtureGroup (m_doc st) (fixtureGroup mtx) = None"
  shows "createPreviewItems env mtx st =
           Inr (False, st\<lparr>m_previewHash := Map.empty,
                           m_scene := [TextItem ''No fixture group to control'']\<rparr>) \<and>
         (\<exists>st'. init env mtx st = Inr st' \<and>
                timerOps st' = timerOps st \<and> timerActive st' = timerActive st \<and>
                m_previewHash st' = Map.empty \<and>
                m_scene st' = [TextItem ''No fixture group to control'']) \<and>
         (\<exists>mtx' st'. slotRestartTest env mtx st = Inr (mtx', st') \<and>
                timerOps st' = timerOps st @ [TimerStop] \<and> \<not> timerActive st' \<and>
                m_previewHash st' = Map.empty \<and>
                m_scene st' = [TextItem ''No fixture group to control''])"
proof (intro conjI)
  show "createPreviewItems env mtx st =
          Inr (False, st\<lparr>m_previewHash := Map.empty,
                          m_scene := [TextItem ''No fixture group to control'']\<rparr>)"
    using assms by (rule createPreviewItems_no_group_eq)
next
  show "\<exists>st'. init env mtx st = Inr st' \<and>
          timerOps st' = timerOps st \<and> timerActive st' = timerActive st \<and>
          m_previewHash st' = Map.empty \<and>
          m_scene st' = [TextItem ''No fixture group to control'']"
    using assms by (simp add: init_def Let_def createPreviewItems_no_group_eq)
next
  let ?mtx2 = "if testChecked st then mtx\<lparr>calls := calls mtx @ [StopAndWait, Start]\<rparr> else mtx"
  have grp: "doc_fixtureGroup (m_doc (timer_stop st)) (fixtureGroup ?mtx2) = None"
    using assms by (simp add: timer_stop_def)
  have "slotRestartTest env mtx st =
          (case createPreviewItems env ?mtx2 (timer_stop st) of
             Inl e \<Rightarrow> Inl e
           | Inr (created, st3) \<Rightarrow>
               Inr (?mtx2, if created then timer_start (tick env) st3 else st3))"
    by (rule slotRestartTest_unfold)
  then show "\<exists>mtx' st'. slotRestartTest env mtx st = Inr (mtx', st') \<and>
          timerOps st' = timerOps st @ [TimerStop] \<and> \<not> timerActive st' \<and>
          m_previewHash st' = Map.empty \<and>
          m_scene st' = [TextItem ''No fixture group to control'']"
    by (simp add: createPreviewItems_no_group_eq [OF grp]) (simp add: timer_stop_def)
qed

theorem createPreviewItems_no_group_witness:
  "createPreviewItems demo_env (demo_matrix\<lparr>fixtureGroup := 2\<rparr>) demo_editor =
     Inr (False, demo_editor\<lparr>m_previewHash := Map.empty,
                             m_scene := [TextItem ''No fixture group to control'']\<rparr>) \<and>
   (\<exists>st'. init demo_env (demo_matrix\<lparr>fixtureGroup := 2\<rparr>) demo_editor = Inr st' \<and>
          timerOps st' = [] \<and> \<not> timerActive st') \<and>
   (\<exists>mtx' st'. slotRestartTest demo_env (demo_matrix\<lparr>fixtureGroup := 2\<rparr>) demo_editor
                 = Inr (mtx', st') \<and>
          timerOps st' = [TimerStop] \<and> \<not> timerActive st')"
proof -
  have h: "doc_fixtureGroup (m_doc demo_editor) (fixtureGroup (demo_matrix\<lparr>fixtureGroup := 2\<rparr>))
             = None"
    by (simp add: demo_editor_def demo_doc_def)
  have e: "timerOps demo_editor = []" "\<not> timerActive demo_editor"
    by (simp_all add: demo_editor_def)
  show ?thesis
    using createPreviewItems_no_group [OF h, where env = demo_env] e by auto
qed

text \<open>
  Claim C6. A call of \<open>slotRestartTest\<close> that returns has stopped the preview timer first;
  if the test button was checked the matrix got \<^verbatim>\<open>stopAndWait\<close> and then \<^verbatim>\<open>start\<close> through the
  two clicks, which leave the button checked; the only further call on the timer is a start
  with the scheduler's tick, made exactly when \<open>createPreviewItems\<close> returned true, so the
  timer runs afterwards if and only if it did.
\<close>

theorem slotRestartTest_timer:
  assumes "slotRestartTest env mtx st = Inr (mtx', st')"
  shows "\<exists>created st3.
           createPreviewItems env mtx' (timer_stop st) = Inr (created, st3) \<and>
           timerOps st' =
             timerOps st @ TimerStop # (if created then [TimerStart (tick env)] else []) \<and>
           timerActive st' = created \<and>
           (created \<longrightarrow> timerInterval st' = tick env) \<and>
           calls mtx' = calls mtx @ (if testChecked st then [StopAndWait, Start] else []) \<and>
           testChecked st' = testChecked st"
proof -
  let ?mtx2 = "if testChecked st then mtx\<lparr>calls := calls mtx @ [StopAndWait, Start]\<rparr> else mtx"
  have unfold: "slotRestartTest env mtx st =
          (case createPreviewItems env ?mtx2 (timer_stop st) of
             Inl e \<Rightarrow> Inl e
           | Inr (created, st3) \<Rightarrow>
               Inr (?mtx2, if created then timer_start (tick env) st3 else st3))"
    by (rule slotRestartTest_unfold)
  with assms obtain created st3 where
    cr: "createPreviewItems env ?mtx2 (timer_stop st) = Inr (created, st3)"
    and res: "mtx' = ?mtx2" "st' = (if created then timer_start (tick env) st3 else st3)"
    by (auto split: sum.splits)
  note fr = createPreviewItems_frame [OF cr]
  have "timerOps st' =
          timerOps st @ TimerStop # (if created then [TimerStart (tick env)] else [])"
    using fr res by (simp add: timer_start_def timer_stop_def)
  moreover have "timerActive st' = created"
    using fr res by (simp add: timer_start_def timer_stop_def)
  moreover have "created \<longrightarrow> timerInterval st' = tick env"
    using res by (simp add: timer_start_def)
  moreover have "calls mtx' = calls mtx @ (if testChecked st then [StopAndWait, Start] else [])"
    using res by simp
  moreover have "testChecked st' = testChecked st"
    using fr res by (simp add: timer_start_def timer_stop_def)
  ultimately show ?thesis using cr res by auto
qed

theorem slotRestartTest_timer_witness:
  "\<exists>mtx' st'. slotRestartTest demo_env demo_matrix (demo_editor\<lparr>testChecked := True\<rparr>)
                 = Inr (mtx', st') \<and>
     timerOps st' = [TimerStop, TimerStart 20] \<and> timerActive st' \<and>
     timerInterval st' = 20 \<and> calls mtx' = [StopAndWait, Start] \<and> testChecked st'"
proof -
  let ?st = "demo_editor\<lparr>testChecked := True\<rparr>"
  have "case slotRestartTest demo_env demo_matrix ?st of
          Inl e \<Rightarrow> False | Inr (m, st') \<Rightarrow> timerOps st' = [TimerStop, TimerStart 20]"
    by code_simp
  then obtain mtx' st' where r: "slotRestartTest demo_env demo_matrix ?st = Inr (mtx', st')"
    and ops: "timerOps st' = [TimerStop, TimerStart 20]"
    by (auto split: sum.splits)
  from slotRestartTest_timer [OF r] obtain created where
    t: "timerOps st' =
          timerOps ?st @ TimerStop # (if created then [TimerStart (tick demo_env)] else [])"
       "timerActive st' = created" "created \<longrightarrow> timerInterval st' = tick demo_env"
       "calls mtx' = calls demo_matrix @ (if testChecked ?st then [StopAndWait, Start] else [])"
       "testChecked st' = testChecked ?st"
    by blast
  from t(1) ops have c: created by (auto split: if_splits)
  have k: "tick demo_env = 20" "calls demo_matrix = []"
    by (simp_all add: demo_env_def demo_matrix_def)
  from r ops t c k show ?thesis by simp
qed

subsection \<open>The algorithm mutex\<close>




subsection \<open>The preview timer callback\<close>

lemma previewLoop_result:
  fixes it :: uint
  assumes pos: "0 < MAX_macro (duration mtx) (tick env)"
  shows "previewLoop env mtx it h elapsed =
           Some (word_of_nat (unat it mod unat (MAX_macro (duration mtx) (tick env))),
                 (nextPreviewStep env mtx ^^ (unat it div unat (MAX_macro (duration mtx) (tick env)))) h,
                 elapsed + word_of_nat (unat it div unat (MAX_macro (duration mtx) (tick env)))
                             * MAX_macro (duration mtx) (tick env))"
proof (induction "unat it" arbitrary: it h elapsed rule: less_induct)
  case less
  let ?M = "MAX_macro (duration mtx) (tick env)"
  have Mpos: "0 < unat ?M" using pos by (simp add: word_less_nat_alt)
  show ?case
  proof (cases "?M \<le> it")
    case True
    then have le: "unat ?M \<le> unat it" by (simp add: word_le_nat_alt)
    have sub: "unat (it - ?M) = unat it - unat ?M" using True by (simp add: unat_sub)
    then have lt: "unat (it - ?M) < unat it" using Mpos le by simp
    have d: "unat it div unat ?M = Suc ((unat it - unat ?M) div unat ?M)"
      using le Mpos by (simp add: le_div_geq)
    have m: "unat it mod unat ?M = (unat it - unat ?M) mod unat ?M"
      using le by (simp add: le_mod_geq)
    have "previewLoop env mtx it h elapsed =
            previewLoop env mtx (it - ?M) (nextPreviewStep env mtx h) (elapsed + ?M)"
      using True by (subst previewLoop.simps) simp
    also have "\<dots> = Some (word_of_nat (unat (it - ?M) mod unat ?M),
                 (nextPreviewStep env mtx ^^ (unat (it - ?M) div unat ?M)) (nextPreviewStep env mtx h),
                 (elapsed + ?M) + word_of_nat (unat (it - ?M) div unat ?M) * ?M)"
      by (rule less [OF lt])
    also have "\<dots> = Some (word_of_nat (unat it mod unat ?M),
                 (nextPreviewStep env mtx ^^ (unat it div unat ?M)) h,
                 elapsed + word_of_nat (unat it div unat ?M) * ?M)"
      by (simp add: sub d m funpow_swap1 algebra_simps)
    finally show ?thesis .
  next
    case False
    then have lt: "unat it < unat ?M" by (simp add: word_le_nat_alt)
    have "previewLoop env mtx it h elapsed = Some (it, h, elapsed)"
      using False by (subst previewLoop.simps) simp
    with lt show ?thesis by simp
  qed
qed

lemma dom_paintCell: "dom (paintCell env mtx elapsed m y x hash) = dom hash"
  by (auto simp: paintCell_def split: option.splits)

lemma dom_paintRow:
  "dom (fold (\<lambda>x. paintCell env mtx elapsed m y x) xs hash) = dom hash"
  by (induction xs arbitrary: hash) (simp_all add: dom_paintCell)

lemma dom_paintRows:
  "dom (fold (\<lambda>y. fold (\<lambda>x. paintCell env mtx elapsed m y x) (cols y)) ys hash) = dom hash"
  by (induction ys arbitrary: hash) (simp_all add: dom_paintRow)

lemma dom_paintMap: "dom (paintMap env mtx elapsed m hash) = dom hash"
  unfolding paintMap_def by (rule dom_paintRows)

lemma MAX_macro_pos: "0 < duration mtx \<Longrightarrow> 0 < MAX_macro (duration mtx) (tick env)"
  by (auto simp: MAX_macro_def)

lemma MAX_macro_max: "MAX_macro x y = max x y"
  by (auto simp: MAX_macro_def max_def)

lemma nextPreviewStep_body:
  "nextPreviewStep env mtx =
     (\<lambda>h. previewMap env mtx
            (currentStepIndex env
               (checkNextStep env (runOrder mtx) (startColor mtx) (endColor mtx)
                  (stepsCount env mtx) h))
            (checkNextStep env (runOrder mtx) (startColor mtx) (endColor mtx)
               (stepsCount env mtx) h))"
  by (rule ext) (simp add: nextPreviewStep_def Let_def)

text \<open>
  Claim C2. With a duration above zero, a timeout returns. The iterator is first raised by
  one tick (the unsigned 32-bit addition of the source); the handler then goes through
  \<^verbatim>\<open>checkNextStep\<close> followed by \<^verbatim>\<open>previewMap\<close> at the handler's new step index, once for every
  full interval \<open>max duration tick\<close> that the raised iterator holds, and the iterator keeps
  the remainder. The preview hash has the same keys as before and the scene is untouched:
  colours go to items that were already there.
\<close>

theorem slotPreviewTimeout_advance:
  assumes "0 < duration mtx"
  shows "\<exists>st'. slotPreviewTimeout env mtx st = Some st' \<and>
           unat (m_previewIterator st') =
             unat (m_previewIterator st + tick env) mod unat (max (duration mtx) (tick env)) \<and>
           m_previewHandler st' =
             ((\<lambda>h. previewMap env mtx
                     (currentStepIndex env
                        (checkNextStep env (runOrder mtx) (startColor mtx) (endColor mtx)
                           (stepsCount env mtx) h))
                     (checkNextStep env (runOrder mtx) (startColor mtx) (endColor mtx)
                        (stepsCount env mtx) h)) ^^
                (unat (m_previewIterator st + tick env)
                   div unat (max (duration mtx) (tick env)))) (m_previewHandler st) \<and>
           dom (m_previewHash st') = dom (m_previewHash st) \<and>
           m_scene st' = m_scene st"
proof -
  let ?M = "MAX_macro (duration mtx) (tick env)"
  let ?a = "unat (m_previewIterator st + tick env)"
  have Mpos: "0 < unat ?M"
    using MAX_macro_pos [OF assms] by (simp add: word_less_nat_alt)
  have nz: "\<not> duration mtx \<le> 0"
    using assms by (simp add: word_le_nat_alt word_less_nat_alt)
  have small: "unat (word_of_nat (?a mod unat ?M) :: uint) = ?a mod unat ?M"
  proof -
    have "?a mod unat ?M \<le> unat ?M" using Mpos by (simp add: less_imp_le)
    then show ?thesis by (rule le_unat_uoi)
  qed
  have "\<exists>st'. slotPreviewTimeout env mtx st = Some st' \<and>
           unat (m_previewIterator st') = ?a mod unat ?M \<and>
           m_previewHandler st' = (nextPreviewStep env mtx ^^ (?a div unat ?M)) (m_previewHandler st) \<and>
           dom (m_previewHash st') = dom (m_previewHash st) \<and>
           m_scene st' = m_scene st"
    using nz small
    by (simp add: slotPreviewTimeout_def previewLoop_result [OF MAX_macro_pos [OF assms]]
        dom_paintMap)
  then show ?thesis
    unfolding MAX_macro_max nextPreviewStep_body .
qed

theorem slotPreviewTimeout_advance_witness:
  "\<exists>st'. slotPreviewTimeout demo_env (demo_matrix\<lparr>duration := 7\<rparr>)
            (demo_editor\<lparr>m_previewIterator := 25, m_previewHash := [(0, 0) \<mapsto> 0]\<rparr>) = Some st' \<and>
         unat (m_previewIterator st') = 5 \<and>
         m_previewHandler st' = (2, [[3, 0]]) \<and>
         dom (m_previewHash st') = {(0, 0)} \<and>
         m_previewHash st' (0, 0) = Some 3"
proof -
  let ?mtx = "demo_matrix\<lparr>duration := 7\<rparr>"
  let ?st = "demo_editor\<lparr>m_previewIterator := 25, m_previewHash := [(0, 0) \<mapsto> 0]\<rparr>"
  have d: "0 < duration ?mtx" by simp
  have M: "unat (max (duration ?mtx) (tick demo_env)) = 20"
    by (simp add: demo_env_def)
  have a: "unat (m_previewIterator ?st + tick demo_env) = 45"
    by (simp add: demo_env_def)
  have e: "m_previewHandler ?st = (0, [])" "dom (m_previewHash ?st) = {(0, 0)}"
    by (simp_all add: demo_editor_def)
  have two: "(45::nat) div 20 = Suc (Suc 0)" by simp
  have painted: "map_option (\<lambda>s. m_previewHash s (0, 0)) (slotPreviewTimeout demo_env ?mtx ?st)
                   = Some (Some 3)"
    by code_simp
  from slotPreviewTimeout_advance [OF d, where env = demo_env and st = ?st]
  obtain st' where r: "slotPreviewTimeout demo_env ?mtx ?st = Some st'"
    and f: "unat (m_previewIterator st') = 5"
      "m_previewHandler st' = (2, [[3, 0]])"
      "dom (m_previewHash st') = {(0, 0)}"
    unfolding M a e two by (auto simp: demo_env_def)
  from painted r have "m_previewHash st' (0, 0) = Some 3" by simp
  with r f show ?thesis by blast
qed

lemma slotPreviewTimeout_wraps:
  "map_option m_previewIterator
     (slotPreviewTimeout demo_env (demo_matrix\<lparr>duration := 0xFFFFFFFE\<rparr>)
        (demo_editor\<lparr>m_previewIterator := 0xFFFFFFF0\<rparr>)) = Some 4"
  by code_simp

subsection \<open>The export loop\<close>

lemma exportStep_i [simp]:
  "ex_i (exportStep env mtx doc grp sid tsteps s) = ex_i s + 1"
  by (simp add: exportStep_def Let_def split: prod.splits)

lemma exportStep_visited [simp]:
  "ex_visited (exportStep env mtx doc grp sid tsteps s) = ex_visited s @ [ex_currentStep s]"
  by (simp add: exportStep_def Let_def split: prod.splits)

lemma exportStep_steps [simp]:
  "ex_steps (exportStep env mtx doc grp sid tsteps s) =
     ex_steps s @ [chaserStep env mtx doc grp sid
                     (previewMap env mtx (ex_currentStep s) (ex_handler s))]"
  by (simp add: exportStep_def Let_def split: prod.splits)

lemma exportStep_next:
  "ex_currentStep (exportStep env mtx doc grp sid tsteps s) =
     (if ex_currentStep s + ex_increment s = tsteps \<and> runOrder mtx = PingPong
      then tsteps - 2 else ex_currentStep s + ex_increment s)"
  "ex_increment (exportStep env mtx doc grp sid tsteps s) =
     (if ex_currentStep s + ex_increment s = tsteps \<and> runOrder mtx = PingPong
      then - 1 else ex_increment s)"
  by (simp_all add: exportStep_def Let_def split: prod.splits)

lemma exportLoop_steps_inv:
  assumes "\<forall>step \<in> set (ex_steps s). P step"
    and "\<And>h. P (chaserStep env mtx doc grp sid h)"
  shows "\<forall>step \<in> set (ex_steps (exportLoop env mtx doc grp sid tsteps s)). P step"
  using assms
proof (induction env mtx doc grp sid tsteps s rule: exportLoop.induct)
  case (1 env mtx doc grp sid tsteps s)
  show ?case
  proof (cases "ex_i s < tsteps")
    case True
    have "\<forall>step \<in> set (ex_steps (exportStep env mtx doc grp sid tsteps s)). P step"
      using "1.prems" by simp
    from "1.IH" [OF True this "1.prems"(2)] True show ?thesis
      by (subst exportLoop.simps) simp
  next
    case False
    with "1.prems" show ?thesis by (subst exportLoop.simps) simp
  qed
qed

lemma exportLoop_length:
  "length (ex_steps (exportLoop env mtx doc grp sid tsteps s)) =
     length (ex_steps s) + nat (tsteps - ex_i s)"
proof (induction env mtx doc grp sid tsteps s rule: exportLoop.induct)
  case (1 env mtx doc grp sid tsteps s)
  show ?case
  proof (cases "ex_i s < tsteps")
    case True
    from "1.IH" [OF True] True show ?thesis
      by (subst exportLoop.simps) (simp add: nat_diff_distrib Suc_nat_eq_nat_zadd1)
  next
    case False
    then show ?thesis by (subst exportLoop.simps) simp
  qed
qed

lemma exportLoop_visited:
  assumes "runOrder mtx \<noteq> PingPong \<or>
           (\<forall>j. ex_i s \<le> j \<and> j < tsteps - 1 \<longrightarrow>
                ex_currentStep s + (j - ex_i s + 1) * ex_increment s \<noteq> tsteps)"
  shows "ex_visited (exportLoop env mtx doc grp sid tsteps s) =
           ex_visited s @
           map (\<lambda>j. ex_currentStep s + (j - ex_i s) * ex_increment s) [ex_i s .. tsteps - 1]"
  using assms
proof (induction env mtx doc grp sid tsteps s rule: exportLoop.induct)
  case (1 env mtx doc grp sid tsteps s)
  let ?s' = "exportStep env mtx doc grp sid tsteps s"
  show ?case
  proof (cases "ex_i s < tsteps")
    case False
    then show ?thesis by (subst exportLoop.simps) simp
  next
    case True
    show ?thesis
    proof (cases "ex_i s = tsteps - 1")
      case last: True
      then have "\<not> ex_i ?s' < tsteps" by simp
      then have "exportLoop env mtx doc grp sid tsteps ?s' = ?s'"
        by (subst exportLoop.simps) simp
      with True last show ?thesis
        by (subst exportLoop.simps) simp
    next
      case False
      with True have lt: "ex_i s < tsteps - 1" by simp
      have noturn: "\<not> (ex_currentStep s + ex_increment s = tsteps \<and> runOrder mtx = PingPong)"
        using "1.prems" lt by (auto dest: spec [where x = "ex_i s"])
      have cur: "ex_currentStep ?s' = ex_currentStep s + ex_increment s"
        and inc: "ex_increment ?s' = ex_increment s"
        using noturn by (auto simp: exportStep_next)
      have pre: "runOrder mtx \<noteq> PingPong \<or>
           (\<forall>j. ex_i ?s' \<le> j \<and> j < tsteps - 1 \<longrightarrow>
                ex_currentStep ?s' + (j - ex_i ?s' + 1) * ex_increment ?s' \<noteq> tsteps)"
      proof (cases "runOrder mtx = PingPong")
        case False then show ?thesis by simp
      next
        case pp: True
        with "1.prems" have all: "\<And>j. ex_i s \<le> j \<Longrightarrow> j < tsteps - 1 \<Longrightarrow>
                ex_currentStep s + (j - ex_i s + 1) * ex_increment s \<noteq> tsteps" by blast
        have "ex_currentStep ?s' + (j - ex_i ?s' + 1) * ex_increment ?s' \<noteq> tsteps"
          if "ex_i ?s' \<le> j" "j < tsteps - 1" for j
        proof -
          have "ex_currentStep s + (j - ex_i s + 1) * ex_increment s \<noteq> tsteps"
            using all [of j] that by simp
          moreover have "ex_currentStep ?s' + (j - ex_i ?s' + 1) * ex_increment ?s' =
                ex_currentStep s + (j - ex_i s + 1) * ex_increment s"
            by (simp add: cur inc algebra_simps)
          ultimately show ?thesis by simp
        qed
        then show ?thesis by blast
      qed
      have "ex_visited (exportLoop env mtx doc grp sid tsteps s) =
              ex_visited (exportLoop env mtx doc grp sid tsteps ?s')"
        using True by (subst exportLoop.simps) simp
      also have "\<dots> = ex_visited ?s' @
           map (\<lambda>j. ex_currentStep ?s' + (j - ex_i ?s') * ex_increment ?s') [ex_i ?s' .. tsteps - 1]"
        by (rule "1.IH" [OF True pre])
      also have "\<dots> = ex_visited s @
           map (\<lambda>j. ex_currentStep s + (j - ex_i s) * ex_increment s) [ex_i s .. tsteps - 1]"
      proof -
        have "[ex_i s .. tsteps - 1] = ex_i s # [ex_i s + 1 .. tsteps - 1]"
          using lt by (simp add: upto_rec1)
        then show ?thesis by (simp add: cur inc algebra_simps)
      qed
      finally show ?thesis .
    qed
  qed
qed


lemma exportInit_fst:
  "fst (exportInit env mtx h) =
     (if runOrder mtx = PingPong then stepsCount env mtx * 2 - 1 else stepsCount env mtx)"
  by (cases "direction mtx") (simp_all add: exportInit_def Let_def)

lemma exportInit_snd:
  "ex_i (snd (exportInit env mtx h)) = 0"
  "ex_visited (snd (exportInit env mtx h)) = []"
  "ex_steps (snd (exportInit env mtx h)) = []"
  "ex_currentStep (snd (exportInit env mtx h)) =
     (if direction mtx = Backward then stepsCount env mtx - 1 else 0)"
  "ex_increment (snd (exportInit env mtx h)) = (if direction mtx = Backward then - 1 else 1)"
  by (cases "direction mtx"; simp add: exportInit_def Let_def)+

lemma exportRun_loop:
  "exportRun env mtx doc grp sid h =
     exportLoop env mtx doc grp sid (fst (exportInit env mtx h)) (snd (exportInit env mtx h))"
  by (simp add: exportRun_def case_prod_beta)

lemma exportRun_visited:
  "ex_visited (exportRun env mtx doc grp sid h) =
     map (\<lambda>j. if direction mtx = Backward then stepsCount env mtx - 1 - j else j)
       [0 .. (if runOrder mtx = PingPong then stepsCount env mtx * 2 - 1
              else stepsCount env mtx) - 1]"
proof -
  let ?s0 = "snd (exportInit env mtx h)"
  let ?t = "fst (exportInit env mtx h)"
  have "runOrder mtx \<noteq> PingPong \<or>
        (\<forall>j. ex_i ?s0 \<le> j \<and> j < ?t - 1 \<longrightarrow>
             ex_currentStep ?s0 + (j - ex_i ?s0 + 1) * ex_increment ?s0 \<noteq> ?t)"
    by (auto simp: exportInit_snd exportInit_fst)
  from exportLoop_visited [OF this, of env doc grp sid] show ?thesis
    by (simp add: exportRun_loop exportInit_snd exportInit_fst cong: map_cong)
qed

lemma exportRun_length:
  "length (ex_steps (exportRun env mtx doc grp sid h)) =
     nat (if runOrder mtx = PingPong then stepsCount env mtx * 2 - 1 else stepsCount env mtx)"
  by (simp add: exportRun_loop exportLoop_length exportInit_snd exportInit_fst)

lemma exportRun_steps_inv:
  assumes "\<And>h'. P (chaserStep env mtx doc grp sid h')"
  shows "\<forall>step \<in> set (ex_steps (exportRun env mtx doc grp sid h)). P step"
proof -
  have "\<forall>step \<in> set (ex_steps (snd (exportInit env mtx h))). P step"
    by (simp add: exportInit_snd)
  from exportLoop_steps_inv [OF this assms] show ?thesis
    by (simp add: exportRun_loop)
qed

text \<open>
  The step indices the loop visits are a straight run in every mode: forward from 0 or
  backward from \<open>stepsCount - 1\<close>, for \<open>stepsCount\<close> rounds, or \<open>2 * stepsCount - 1\<close> rounds in
  ping-pong. Without ping-pong they stay inside the step range; with ping-pong and two or
  more steps the run leaves it.
\<close>

lemma exportRun_loop_in_range:
  assumes "runOrder mtx \<noteq> PingPong"
  shows "\<forall>i \<in> set (ex_visited (exportRun env mtx doc grp sid h)).
           0 \<le> i \<and> i < stepsCount env mtx"
  using assms by (auto simp: exportRun_visited)

lemma exportRun_pingpong_leaves_range:
  assumes "runOrder mtx = PingPong" and "2 \<le> stepsCount env mtx"
  shows "\<exists>i \<in> set (ex_visited (exportRun env mtx doc grp sid h)).
           i < 0 \<or> stepsCount env mtx \<le> i"
proof -
  let ?n = "stepsCount env mtx"
  let ?f = "\<lambda>j. if direction mtx = Backward then ?n - 1 - j else j"
  have v: "ex_visited (exportRun env mtx doc grp sid h) = map ?f [0 .. ?n * 2 - 1 - 1]"
    using assms(1) by (simp add: exportRun_visited)
  have "?n \<in> set [0 .. ?n * 2 - 1 - 1]" using assms(2) by simp
  then have "?f ?n \<in> set (ex_visited (exportRun env mtx doc grp sid h))"
    unfolding v set_map by (rule imageI)
  moreover have "?f ?n < 0 \<or> ?n \<le> ?f ?n" by simp
  ultimately show ?thesis by blast
qed

text \<open>
  Claim C1 says that the export visits the step indices in order (forward then back in
  ping-pong, without repeating the last step), each inside \<open>[0, stepsCount)\<close>, and adds
  \<open>stepsCount\<close> or \<open>2 * stepsCount - 1\<close> steps. The numbers of steps are as claimed and so are
  the orders without ping-pong. In ping-pong the loop does not turn: the test for the
  turn-around compares \<^verbatim>\<open>currentStep\<close> with \<^verbatim>\<open>totalSteps\<close> after that was doubled. On the
  installation above, with three steps in ping-pong, the export visits 0, 1, 2, 3, 4 going
  forward and 2, 1, 0, -1, -2 going backward. The registered sequences show it: the last
  value of each step is the blue of the left head, which the installation's \<open>previewMap\<close>
  sets to the step index plus one.
\<close>

theorem export_pingpong_visits:
  "stepsCount demo_env demo_matrix = 3 \<and> runOrder demo_matrix = PingPong \<and>
   direction demo_matrix = Forward \<and>
   ex_visited (snd (snd (snd (snd demo_export)))) = [0, 1, 2, 3, 4] \<and>
   ex_visited (snd (snd (snd (snd demo_export_backward)))) = [2, 1, 0, - 1, - 2] \<and>
   map (sv_value \<circ> last \<circ> step_values) (steps (fst (snd (snd (snd demo_export)))))
     = [1, 2, 3, 4, 5] \<and>
   map (sv_value \<circ> last \<circ> step_values) (steps (fst (snd (snd (snd demo_export_backward)))))
     = [3, 2, 1, 0, 255]"
  by code_simp

subsection \<open>The exported functions\<close>

lemma exportFunctions_parts:
  assumes "exportFunctions env mtx grp st = (mtx1, st2, grpScene, sequence, s)"
  shows "duration mtx1 = duration mtx" "fadeInSpeed mtx1 = fadeInSpeed mtx"
    "fadeOutSpeed mtx1 = fadeOutSpeed mtx"
    "\<exists>doc1. s = exportRun env mtx1 doc1 grp (scene_id grpScene) (m_previewHandler st)"
    "steps sequence = steps (newSequence env) @ ex_steps s"
    "boundSceneID sequence = scene_id grpScene"
    "doc_functions (m_doc st2) =
       doc_functions (m_doc st) @ [SceneFunction grpScene, SequenceFunction sequence]"
  using assms
  by (auto simp: exportFunctions_def Let_def addScene_def addSequence_def exportSequence_def
      testButton_click_def slotTestClicked_def timer_stop_def split: if_splits prod.splits)

lemma slotSaveToSequenceClicked_registers:
  assumes "fixtureGroup mtx \<noteq> invalidId env"
    and "doc_fixtureGroup (m_doc st) (fixtureGroup mtx) = Some grp"
    and "algorithm mtx \<noteq> None"
    and "exportFunctions env mtx grp st = (mtx1, st2, grpScene, sequence, s)"
    and "slotSaveToSequenceClicked env (Some mtx) st = Inr (m', st')"
  shows "doc_functions (m_doc st') =
           doc_functions (m_doc st) @ [SceneFunction grpScene, SequenceFunction sequence]"
proof -
  have d2: "doc_functions (m_doc st2) =
           doc_functions (m_doc st) @ [SceneFunction grpScene, SequenceFunction sequence]"
    using exportFunctions_parts(7) [OF assms(4)] .
  have "m_doc st' = m_doc st2"
    using assms
    by (auto simp: slotSaveToSequenceClicked_def Let_def testButton_click_def timer_start_def
        split: if_splits sum.splits dest!: createPreviewItems_frame)
  with d2 show ?thesis by simp
qed

text \<open>
  Claim C4. The export registers a scene and a sequence; every step it added to the
  sequence has the matrix's duration, fade-in and fade-out speed, a hold of the duration
  minus the fade-in speed, and the id of that scene.
\<close>

theorem exported_steps_timing:
  assumes "exportFunctions env mtx grp st = (mtx1, st2, grpScene, sequence, s)"
  shows "doc_functions (m_doc st2) =
           doc_functions (m_doc st) @ [SceneFunction grpScene, SequenceFunction sequence] \<and>
         steps sequence = steps (newSequence env) @ ex_steps s \<and>
         (\<forall>step \<in> set (ex_steps s).
            step_duration step = duration mtx \<and>
            fadeIn step = fadeInSpeed mtx \<and>
            fadeOut step = fadeOutSpeed mtx \<and>
            hold step = duration mtx - fadeInSpeed mtx \<and>
            fid step = scene_id grpScene)"
proof -
  note p = exportFunctions_parts [OF assms]
  from p(4) obtain doc1 where
    s: "s = exportRun env mtx1 doc1 grp (scene_id grpScene) (m_previewHandler st)" ..
  have "\<forall>step \<in> set (ex_steps s).
            step_duration step = duration mtx1 \<and>
            fadeIn step = fadeInSpeed mtx1 \<and>
            fadeOut step = fadeOutSpeed mtx1 \<and>
            hold step = duration mtx1 - fadeInSpeed mtx1 \<and>
            fid step = scene_id grpScene"
    unfolding s by (rule exportRun_steps_inv) (simp add: chaserStep_def)
  with p show ?thesis by simp
qed

lemma demo_export_eq:
  "exportFunctions demo_env demo_matrix demo_group demo_editor =
     (fst demo_export, fst (snd demo_export), fst (snd (snd demo_export)),
      fst (snd (snd (snd demo_export))), snd (snd (snd (snd demo_export))))"
  by (simp add: demo_export_def)

theorem exported_steps_timing_witness:
  "length (ex_steps (snd (snd (snd (snd demo_export))))) = 5 \<and>
   step_duration (ex_steps (snd (snd (snd (snd demo_export)))) ! 4) = 100 \<and>
   fadeIn (ex_steps (snd (snd (snd (snd demo_export)))) ! 4) = 30 \<and>
   fadeOut (ex_steps (snd (snd (snd (snd demo_export)))) ! 4) = 0 \<and>
   hold (ex_steps (snd (snd (snd (snd demo_export)))) ! 4) = 70 \<and>
   fid (ex_steps (snd (snd (snd (snd demo_export)))) ! 4) = 0"
proof -
  let ?steps = "ex_steps (snd (snd (snd (snd demo_export))))"
  have len: "length ?steps = 5"
    and sid: "scene_id (fst (snd (snd demo_export))) = 0"
    by code_simp+
  have m: "duration demo_matrix = 100" "fadeInSpeed demo_matrix = 30"
    "fadeOutSpeed demo_matrix = 0"
    by (simp_all add: demo_matrix_def)
  have mem: "?steps ! 4 \<in> set ?steps" using len by simp
  from exported_steps_timing [OF demo_export_eq] mem
  have "step_duration (?steps ! 4) = duration demo_matrix \<and>
        fadeIn (?steps ! 4) = fadeInSpeed demo_matrix \<and>
        fadeOut (?steps ! 4) = fadeOutSpeed demo_matrix \<and>
        hold (?steps ! 4) = duration demo_matrix - fadeInSpeed demo_matrix \<and>
        fid (?steps ! 4) = scene_id (fst (snd (snd demo_export)))"
    by blast
  with len show ?thesis by (simp add: sid m)
qed

text \<open>
  Claim C9. Every step the export added to the sequence carries its scene values in
  ascending order of \<^verbatim>\<open>SceneValue::operator<\<close>, whatever the group's heads and their places.
\<close>

theorem exported_steps_sorted:
  assumes "exportFunctions env mtx grp st = (mtx1, st2, grpScene, sequence, s)"
  shows "steps sequence = steps (newSequence env) @ ex_steps s \<and>
         (\<forall>step \<in> set (ex_steps s). sorted (map (sceneValueKey env) (step_values step)))"
proof -
  note p = exportFunctions_parts [OF assms]
  from p(4) obtain doc1 where
    s: "s = exportRun env mtx1 doc1 grp (scene_id grpScene) (m_previewHandler st)" ..
  have "\<forall>step \<in> set (ex_steps s). sorted (map (sceneValueKey env) (step_values step))"
    unfolding s by (rule exportRun_steps_inv) (simp add: chaserStep_def)
  with p show ?thesis by simp
qed

theorem exported_steps_sorted_witness:
  "map sv_fxi (step_values (ex_steps (snd (snd (snd (snd demo_export_loop)))) ! 0)) = [5, 7, 7, 7] \<and>
   sorted (map (sceneValueKey demo_env)
     (step_values (ex_steps (snd (snd (snd (snd demo_export_loop)))) ! 0)))"
proof -
  let ?steps = "ex_steps (snd (snd (snd (snd demo_export_loop))))"
  have eq: "exportFunctions demo_env (demo_matrix\<lparr>runOrder := Loop\<rparr>) demo_group demo_editor =
     (fst demo_export_loop, fst (snd demo_export_loop), fst (snd (snd demo_export_loop)),
      fst (snd (snd (snd demo_export_loop))), snd (snd (snd (snd demo_export_loop))))"
    by (simp add: demo_export_loop_def)
  have len: "length ?steps = 3"
    and v: "map sv_fxi (step_values (?steps ! 0)) = [5, 7, 7, 7]"
    by code_simp+
  have mem: "?steps ! 0 \<in> set ?steps" using len by simp
  from exported_steps_sorted [OF eq] mem
  have "sorted (map (sceneValueKey demo_env) (step_values (?steps ! 0)))" by blast
  with v show ?thesis by simp
qed

end
